theory Spec2Isabelle
  imports Complex_Main "HOL-Library.AList"
begin

section \<open>Python values used by the views\<close>

text \<open>
  A Python \<open>str\<close> is modelled by the list of its code points; the model covers the
  code points below 256, one \<open>char\<close> each. A Python \<open>dict\<close> keeps its keys in
  insertion order and holds each key once: it is an association list, assignment
  \<open>d[k] = v\<close> is \<open>AList.update k v d\<close>, \<open>del d[k]\<close> is \<open>AList.delete k d\<close> and
  \<open>d[k]\<close> is \<open>map_of d k\<close>.

  The session cart of \<open>views.py\<close> is a dict from product id (the text \<open>str\<close> gives) to
  a one-entry dict \<open>{'cantidad': n}\<close>; the inner dict is modelled by its only value.
  A primary key appears in the views only as that text (cart key, metadata value), so
  the tables below are keyed by it.
\<close>

type_synonym carrito = "(string \<times> int) list"

abbreviation dquote :: char where "dquote \<equiv> CHR 0x22"
abbreviation bslash :: char where "bslash \<equiv> CHR 0x5C"

subsection \<open>\<open>json.dumps\<close> on a cart\<close>

text \<open>
  \<open>json.dumps(carrito)\<close> with the default arguments: separators \<open>', '\<close> and \<open>': '\<close>,
  \<open>ensure_ascii=True\<close>. Inside a string, \<open>"\<close> and \<open>\\<close> are escaped with a backslash,
  the characters from space to \<open>~\<close> stand for themselves, backspace, form feed, newline,
  carriage return and tab have their short escapes and every other code point is
  written as \<open>\uXXXX\<close> with lower-case hexadecimal digits.
\<close>

definition hexdigit :: "nat \<Rightarrow> char" where
  "hexdigit n = (if n < 10 then char_of (48 + n) else char_of (87 + n))"

definition escape_ascii :: "char \<Rightarrow> string" where
  "escape_ascii c =
     (let n = (of_char c :: nat) in
      if c = dquote then [bslash, dquote]
      else if c = bslash then [bslash, bslash]
      else if 32 \<le> n \<and> n \<le> 126 then [c]
      else if n = 8 then [bslash, CHR ''b'']
      else if n = 12 then [bslash, CHR ''f'']
      else if n = 10 then [bslash, CHR ''n'']
      else if n = 13 then [bslash, CHR ''r'']
      else if n = 9 then [bslash, CHR ''t'']
      else [bslash, CHR ''u'', CHR ''0'', CHR ''0'', hexdigit (n div 16), hexdigit (n mod 16)])"

definition encode_basestring_ascii :: "string \<Rightarrow> string" where
  "encode_basestring_ascii s = dquote # concat (map escape_ascii s) @ [dquote]"

fun dec :: "nat \<Rightarrow> string" where
  "dec n = (if n < 10 then [char_of (48 + n)] else dec (n div 10) @ [char_of (48 + n mod 10)])"

declare dec.simps [simp del]

definition str_int :: "int \<Rightarrow> string" where
  "str_int i = (if i < 0 then CHR ''-'' # dec (nat (- i)) else dec (nat i))"

definition dumps_item :: "int \<Rightarrow> string" where
  "dumps_item c = ''{'' @ encode_basestring_ascii ''cantidad'' @ '': '' @ str_int c @ ''}''"

fun dumps_members :: "carrito \<Rightarrow> string" where
  "dumps_members [] = []"
| "dumps_members [(k, c)] = encode_basestring_ascii k @ '': '' @ dumps_item c"
| "dumps_members ((k, c) # m # ms) =
     encode_basestring_ascii k @ '': '' @ dumps_item c @ '', '' @ dumps_members (m # ms)"

definition json_dumps :: "carrito \<Rightarrow> string" where
  "json_dumps d = ''{'' @ dumps_members d @ ''}''"

subsection \<open>\<open>json.loads\<close> on the text of a cart\<close>

text \<open>
  \<open>json.loads\<close> restricted to the values a cart is made of: objects, strings and
  integers, with JSON's optional white space between tokens. The result is \<open>None\<close>
  when \<open>json.loads\<close> raises and also when the text is JSON of another shape (arrays,
  floats, literals, other inner keys, code points from 256 on), which this model does
  not decode. A repeated key keeps its first position and its last value, as \<open>dict\<close>
  built from the pairs does.
\<close>

datatype token = LBrace | RBrace | Colon | Comma | TStr string | TInt int

definition hexval :: "char \<Rightarrow> nat option" where
  "hexval c =
     (let n = (of_char c :: nat) in
      if 48 \<le> n \<and> n \<le> 57 then Some (n - 48)
      else if 97 \<le> n \<and> n \<le> 102 then Some (n - 87)
      else if 65 \<le> n \<and> n \<le> 70 then Some (n - 55)
      else None)"

definition hex4 :: "char \<Rightarrow> char \<Rightarrow> char \<Rightarrow> char \<Rightarrow> nat option" where
  "hex4 h1 h2 h3 h4 =
     Option.bind (hexval h1) (\<lambda>a.
     Option.bind (hexval h2) (\<lambda>b.
     Option.bind (hexval h3) (\<lambda>c.
     Option.bind (hexval h4) (\<lambda>d. Some (4096 * a + 256 * b + 16 * c + d)))))"

definition backslash :: "char \<Rightarrow> char option" where
  "backslash e =
     (if e = dquote then Some dquote
      else if e = bslash then Some bslash
      else if e = CHR ''/'' then Some CHR ''/''
      else if e = CHR ''b'' then Some (CHR 0x08)
      else if e = CHR ''f'' then Some (CHR 0x0C)
      else if e = CHR ''n'' then Some (CHR 0x0A)
      else if e = CHR ''r'' then Some (CHR 0x0D)
      else if e = CHR ''t'' then Some (CHR 0x09)
      else None)"

definition push :: "char \<Rightarrow> (string \<times> string) option \<Rightarrow> (string \<times> string) option" where
  "push c r = (case r of None \<Rightarrow> None | Some (s, rest) \<Rightarrow> Some (c # s, rest))"

text \<open>The scan of a string starts after its opening quote and returns the decoded
  string with the text that follows the closing quote.\<close>

fun scanstring :: "string \<Rightarrow> (string \<times> string) option" where
  "scanstring [] = None"
| "scanstring (c # cs) =
     (if c = dquote then Some ([], cs)
      else if c = bslash then
        (case cs of
           [] \<Rightarrow> None
         | e # es \<Rightarrow>
             if e = CHR ''u'' then
               (case es of
                  h1 # h2 # h3 # h4 # r \<Rightarrow>
                    (case hex4 h1 h2 h3 h4 of
                       None \<Rightarrow> None
                     | Some n \<Rightarrow> if n < 256 then push (char_of n) (scanstring r) else None)
                | _ \<Rightarrow> None)
             else (case backslash e of None \<Rightarrow> None | Some ch \<Rightarrow> push ch (scanstring es)))
      else if (of_char c :: nat) < 32 then None
      else push c (scanstring cs))"

definition is_digit :: "char \<Rightarrow> bool" where
  "is_digit c = (48 \<le> (of_char c :: nat) \<and> (of_char c :: nat) \<le> 57)"

definition digit_val :: "char \<Rightarrow> nat" where
  "digit_val c = of_char c - 48"

definition nat_of_digits :: "string \<Rightarrow> nat" where
  "nat_of_digits ds = foldl (\<lambda>a c. 10 * a + digit_val c) 0 ds"

text \<open>The integer part of a JSON number: \<open>0\<close>, or a non-zero digit and the digits after it.\<close>

definition scan_natural :: "string \<Rightarrow> (nat \<times> string) option" where
  "scan_natural s =
     (case s of
        [] \<Rightarrow> None
      | c # cs \<Rightarrow>
          if c = CHR ''0'' then Some (0, cs)
          else if is_digit c then
            Some (nat_of_digits (c # takeWhile is_digit cs), dropWhile is_digit cs)
          else None)"

text \<open>A fraction or an exponent after the integer part makes the number a float.\<close>

definition starts_exponent :: "string \<Rightarrow> bool" where
  "starts_exponent r =
     (case r of
        e # d # ds \<Rightarrow>
          (e = CHR ''e'' \<or> e = CHR ''E'') \<and>
          (is_digit d \<or> ((d = CHR ''+'' \<or> d = CHR ''-'') \<and> (case ds of x # _ \<Rightarrow> is_digit x | [] \<Rightarrow> False)))
      | _ \<Rightarrow> False)"

definition starts_fraction :: "string \<Rightarrow> bool" where
  "starts_fraction r = (case r of p # d # _ \<Rightarrow> p = CHR ''.'' \<and> is_digit d | _ \<Rightarrow> False)"

definition scan_number :: "string \<Rightarrow> (int \<times> string) option" where
  "scan_number s =
     (let (neg, s') = (case s of [] \<Rightarrow> (False, []) | c # cs \<Rightarrow> if c = CHR ''-'' then (True, cs) else (False, s))
      in case scan_natural s' of
           None \<Rightarrow> None
         | Some (n, r) \<Rightarrow>
             if starts_fraction r \<or> starts_exponent r then None
             else Some (if neg then - int n else int n, r))"

definition is_ws :: "char \<Rightarrow> bool" where
  "is_ws c = (c = CHR '' '' \<or> c = CHR 0x09 \<or> c = CHR 0x0A \<or> c = CHR 0x0D)"


lemma push_Some: "push c r = Some (s, rest) \<longleftrightarrow> (\<exists>s'. r = Some (s', rest) \<and> s = c # s')"
  by (cases r) (auto simp: push_def)

lemma scanstring_length: "scanstring s = Some (k, r) \<Longrightarrow> length r < length s"
  by (induction s arbitrary: k r rule: scanstring.induct)
     (fastforce simp: push_Some less_Suc_eq split: if_splits list.splits option.splits)+

lemma scan_natural_length: "scan_natural s = Some (n, r) \<Longrightarrow> length r < length s"
  by (auto simp: scan_natural_def less_Suc_eq_le length_dropWhile_le split: list.splits if_splits)

lemma scan_number_length: "scan_number s = Some (i, r) \<Longrightarrow> length r < length s"
  by (auto simp: scan_number_def split: list.splits if_splits option.splits
           dest!: scan_natural_length)

function tokenize :: "string \<Rightarrow> token list option" where
  "tokenize [] = Some []"
| "tokenize (c # cs) =
     (if is_ws c then tokenize cs
      else if c = CHR ''{'' then map_option ((#) LBrace) (tokenize cs)
      else if c = CHR ''}'' then map_option ((#) RBrace) (tokenize cs)
      else if c = CHR '':'' then map_option ((#) Colon) (tokenize cs)
      else if c = CHR '','' then map_option ((#) Comma) (tokenize cs)
      else if c = dquote then
        (case scanstring cs of
           None \<Rightarrow> None
         | Some (k, r) \<Rightarrow> map_option ((#) (TStr k)) (tokenize r))
      else
        (case scan_number (c # cs) of
           None \<Rightarrow> None
         | Some (i, r) \<Rightarrow> map_option ((#) (TInt i)) (tokenize r)))"
  by pat_completeness auto
termination
proof (relation "measure length")
  show "wf (measure length)" by simp
qed (auto dest: scanstring_length scan_number_length)

fun expect :: "token \<Rightarrow> token list \<Rightarrow> token list option" where
  "expect t [] = None"
| "expect t (x # xs) = (if x = t then Some xs else None)"

fun get_str :: "token list \<Rightarrow> (string \<times> token list) option" where
  "get_str (TStr k # xs) = Some (k, xs)"
| "get_str _ = None"

fun get_int :: "token list \<Rightarrow> (int \<times> token list) option" where
  "get_int (TInt n # xs) = Some (n, xs)"
| "get_int _ = None"

definition parse_item :: "token list \<Rightarrow> (int \<times> token list) option" where
  "parse_item ts =
     Option.bind (expect LBrace ts) (\<lambda>t1.
     Option.bind (get_str t1) (\<lambda>(f, t2).
     Option.bind (expect Colon t2) (\<lambda>t3.
     Option.bind (get_int t3) (\<lambda>(n, t4).
     Option.bind (expect RBrace t4) (\<lambda>t5.
       if f = ''cantidad'' then Some (n, t5) else None)))))"

definition parse_member :: "token list \<Rightarrow> ((string \<times> int) \<times> token list) option" where
  "parse_member ts =
     Option.bind (get_str ts) (\<lambda>(k, t1).
     Option.bind (expect Colon t1) (\<lambda>t2.
     Option.bind (parse_item t2) (\<lambda>(n, t3). Some ((k, n), t3))))"

lemma expect_length: "expect t ts = Some r \<Longrightarrow> length r < length ts"
  by (cases ts) (auto split: if_splits)

lemma get_str_length: "get_str ts = Some (k, r) \<Longrightarrow> length r < length ts"
  by (induction ts rule: get_str.induct) auto

lemma get_int_length: "get_int ts = Some (k, r) \<Longrightarrow> length r < length ts"
  by (induction ts rule: get_int.induct) auto

lemma parse_item_length: "parse_item ts = Some (n, r) \<Longrightarrow> length r < length ts"
  by (auto simp: parse_item_def bind_eq_Some_conv split: if_splits
           dest!: expect_length get_str_length get_int_length)

lemma parse_member_length: "parse_member ts = Some (kv, r) \<Longrightarrow> length r < length ts"
  by (auto simp: parse_member_def bind_eq_Some_conv
           dest!: expect_length get_str_length parse_item_length)

function parse_members :: "token list \<Rightarrow> carrito option" where
  "parse_members ts =
     (case parse_member ts of
        None \<Rightarrow> None
      | Some (kv, rest) \<Rightarrow>
          (case rest of
             [] \<Rightarrow> None
           | t # rest' \<Rightarrow>
               if t = RBrace then (if rest' = [] then Some [kv] else None)
               else if t = Comma then map_option ((#) kv) (parse_members rest')
               else None))"
  by pat_completeness auto
termination
proof (relation "measure length")
  show "wf (measure length)" by simp
qed (auto dest: parse_member_length)

declare parse_members.simps [simp del]

definition parse_carrito :: "token list \<Rightarrow> carrito option" where
  "parse_carrito ts =
     (case expect LBrace ts of
        None \<Rightarrow> None
      | Some rest \<Rightarrow> if rest = [RBrace] then Some [] else parse_members rest)"

definition dict :: "carrito \<Rightarrow> carrito" where
  "dict pairs = foldl (\<lambda>d (k, v). AList.update k v d) [] pairs"

definition json_loads :: "string \<Rightarrow> carrito option" where
  "json_loads s = (case tokenize s of None \<Rightarrow> None | Some ts \<Rightarrow> map_option dict (parse_carrito ts))"

section \<open>Python's \<open>int\<close> on a string\<close>

text \<open>
  Django converts the value of a lookup on an integer key with \<open>int(value)\<close>. On a
  string, \<open>int\<close> drops white space at both ends, takes one optional sign and then
  decimal digits, with single underscores allowed between digits; anything else is a
  \<open>ValueError\<close>, and so is a number of more than 4300 digits (the default limit of
  Python 3.11). The code points are those below 256.
\<close>

definition es_espacio :: "char \<Rightarrow> bool" where
  "es_espacio c = ((of_char c :: nat) \<in> {9, 10, 11, 12, 13, 32, 133, 160})"

definition strip :: "string \<Rightarrow> string" where
  "strip s = rev (dropWhile es_espacio (rev (dropWhile es_espacio s)))"

fun digitos_resto :: "string \<Rightarrow> string option" where
  "digitos_resto [] = Some []"
| "digitos_resto (c # cs) =
     (if is_digit c then map_option ((#) c) (digitos_resto cs)
      else if c = CHR ''_'' then
        (case cs of
           [] \<Rightarrow> None
         | d # ds \<Rightarrow> if is_digit d then map_option ((#) d) (digitos_resto ds) else None)
      else None)"

definition digitos :: "string \<Rightarrow> string option" where
  "digitos s =
     (case s of
        [] \<Rightarrow> None
      | c # cs \<Rightarrow> if is_digit c then map_option ((#) c) (digitos_resto cs) else None)"

definition int_str :: "string \<Rightarrow> int option" where
  "int_str s =
     (let t = strip s;
          (neg, u) = (case t of
                        [] \<Rightarrow> (False, [])
                      | c # cs \<Rightarrow>
                          if c = CHR ''-'' then (True, cs)
                          else if c = CHR ''+'' then (False, cs)
                          else (False, t))
      in case digitos u of
           None \<Rightarrow> None
         | Some ds \<Rightarrow>
             if length ds > 4300 then None
             else Some (if neg then - int (nat_of_digits ds) else int (nat_of_digits ds)))"

section \<open>The data model of \<open>models.py\<close>\<close>

text \<open>
  \<open>Producto\<close>, \<open>Pedido\<close> and \<open>DetallePedido\<close> with the fields the views read or write;
  the tables are keyed by the integer primary key. A \<open>DecimalField\<close> is a rational
  number. The store checks what \<open>models.py\<close> declares and the views can violate:
  \<open>stock\<close> and \<open>cantidad\<close> are \<open>PositiveIntegerField\<close>s, so a negative value is
  refused with \<open>IntegrityError\<close>, and \<open>DetallePedido\<close> is \<open>unique_together\<close> on
  (pedido, producto). \<open>id_transaccion_pago\<close> is declared without \<open>unique=True\<close>, so
  \<open>Pedido.objects.create\<close> has no uniqueness check to fail. The lengths of the
  \<open>CharField\<close>s and the upper end of the integer columns are not modelled. The views
  open no transaction (\<open>transaction.atomic\<close> does not occur), so every \<open>create\<close> and
  \<open>save\<close> is a write of its own.
\<close>

datatype estado_pedido = Pendiente | En_preparacion | Enviado | Entregado | Cancelado

record producto =
  nombre :: string
  precio :: rat
  stock :: int
  imagen_url :: string

record pedido =
  pedido_id :: nat
  usuario :: int
  estado :: estado_pedido
  total :: rat
  direccion_envio :: string
  id_transaccion_pago :: string

record detalle_pedido =
  det_pedido :: nat
  det_producto :: int
  cantidad :: int
  precio_unitario :: rat

record store =
  usuarios :: "int list"
  productos :: "(int \<times> producto) list"
  pedidos :: "pedido list"
  detalles :: "detalle_pedido list"
  seq_pedido :: nat

text \<open>The exceptions that leave the views. \<open>JSONDecodeError_or_NameError\<close> stands for
  the two ways the webhook fails on a metadata text that \<open>json_loads\<close> above does
  not decode: \<open>json.loads\<close> raises, or it returns a value of another shape and the
  next statement raises \<open>NameError\<close>. \<open>Total_no_modelado\<close> marks an amount whose
  conversion to the ten digits of \<open>total\<close> is not modelled.\<close>

datatype excepcion =
    Http404
  | KeyError string
  | ValueError
  | NameError string
  | IntegrityError
  | SignatureVerificationError
  | JSONDecodeError_or_NameError
  | Total_no_modelado

text \<open>\<open>get_object_or_404(Producto, id=...)\<close> with a string as the value: the string
  is converted with \<open>int\<close> (\<open>ValueError\<close> when that fails), then the row with that key
  is fetched (\<open>Http404\<close> when there is none). The result is the key with the row.\<close>

definition get_object_or_404_Producto :: "store \<Rightarrow> string \<Rightarrow> excepcion + (int \<times> producto)" where
  "get_object_or_404_Producto st valor =
     (case int_str valor of
        None \<Rightarrow> Inl ValueError
      | Some pk \<Rightarrow>
          (case map_of (productos st) pk of None \<Rightarrow> Inl Http404 | Some p \<Rightarrow> Inr (pk, p)))"

text \<open>The same lookup on Django's user model, for a module in which the name
  \<open>User\<close> is bound to it.\<close>

definition get_object_or_404_User :: "store \<Rightarrow> string \<Rightarrow> excepcion + int" where
  "get_object_or_404_User st valor =
     (case int_str valor of
        None \<Rightarrow> Inl ValueError
      | Some pk \<Rightarrow> if pk \<in> set (usuarios st) then Inr pk else Inl Http404)"

text \<open>\<open>Pedido.objects.filter(id_transaccion_pago=...).exists()\<close>\<close>

definition Pedido_exists :: "store \<Rightarrow> string \<Rightarrow> bool" where
  "Pedido_exists st txid = (txid \<in> set (map id_transaccion_pago (pedidos st)))"

text \<open>\<open>Pedido.objects.create(usuario=..., total=..., estado=..., id_transaccion_pago=...)\<close>:
  the row gets the next key of the sequence; \<open>direccion_envio\<close> is blank.\<close>

definition Pedido_objects_create ::
  "store \<Rightarrow> int \<Rightarrow> rat \<Rightarrow> estado_pedido \<Rightarrow> string \<Rightarrow> pedido \<times> store" where
  "Pedido_objects_create st u t e txid =
     (let p = \<lparr>pedido_id = seq_pedido st, usuario = u, estado = e, total = t,
                direccion_envio = [], id_transaccion_pago = txid\<rparr>
      in (p, st\<lparr>pedidos := pedidos st @ [p], seq_pedido := Suc (seq_pedido st)\<rparr>))"

text \<open>\<open>DetallePedido.objects.create(pedido=..., producto=..., cantidad=...,
  precio_unitario=...)\<close>: refused for a negative \<open>cantidad\<close> and for a second line of
  the same order and product.\<close>

definition DetallePedido_objects_create ::
  "store \<Rightarrow> nat \<Rightarrow> int \<Rightarrow> int \<Rightarrow> rat \<Rightarrow> excepcion + store" where
  "DetallePedido_objects_create st ped pk cant pu =
     (if cant < 0 \<or> (ped, pk) \<in> set (map (\<lambda>d. (det_pedido d, det_producto d)) (detalles st))
      then Inl IntegrityError
      else Inr (st\<lparr>detalles := detalles st @
             [\<lparr>det_pedido = ped, det_producto = pk, cantidad = cant, precio_unitario = pu\<rparr>]\<rparr>))"

text \<open>\<open>producto.save()\<close> writes the object back to its row; a negative \<open>stock\<close> is
  refused.\<close>

definition Producto_save :: "store \<Rightarrow> int \<Rightarrow> producto \<Rightarrow> excepcion + store" where
  "Producto_save st pk p =
     (if stock p < 0 then Inl IntegrityError
      else Inr (st\<lparr>productos := AList.update pk p (productos st)\<rparr>))"

section \<open>Session, requests and responses\<close>

datatype nivel = Success | Error

record sesion =
  ses_carrito :: "carrito option"
  mensajes :: "(nivel \<times> string) list"

record mundo =
  db :: store
  ses :: sesion

datatype jval = JS string | JI int

datatype respuesta =
    JsonResponse "(string \<times> jval) list" nat
  | HttpResponse nat
  | HttpResponseNotAllowed
  | Redirect string
  | RedirectToLogin

text \<open>\<open>request.session.get('carrito', {})\<close>\<close>

definition get_carrito :: "sesion \<Rightarrow> carrito" where
  "get_carrito s = (case ses_carrito s of None \<Rightarrow> [] | Some c \<Rightarrow> c)"

definition add_message :: "nivel \<Rightarrow> string \<Rightarrow> mundo \<Rightarrow> mundo" where
  "add_message n m w = w\<lparr>ses := (ses w)\<lparr>mensajes := mensajes (ses w) @ [(n, m)]\<rparr>\<rparr>"

section \<open>The cart views\<close>

text \<open>The last three statements of the view: the cart is stored in the session, the
  success message is recorded and the JSON answer carries the number of items.\<close>

definition guardar_y_responder ::
  "producto \<Rightarrow> carrito \<Rightarrow> mundo \<Rightarrow> mundo \<times> (excepcion + respuesta)" where
  "guardar_y_responder producto carrito w =
     (add_message Success
        ([dquote] @ nombre producto @ [dquote] @ '' fue a'' @ [CHR 0xF1] @ ''adido a tu carrito.'')
        (w\<lparr>ses := (ses w)\<lparr>ses_carrito := Some carrito\<rparr>\<rparr>),
      Inr (JsonResponse
        [(''mensaje'', JS (nombre producto @ '' a'' @ [CHR 0xF1] @ ''adido al carrito.'')),
         (''total_items'', JI (sum_list (map snd carrito)))] 200))"

text \<open>
  \<open>agregar_al_carrito\<close> (\<open>@require_POST\<close>). \<open>producto_id\<close> is
  \<open>str(data.get('producto_id'))\<close> of the request body; it is the value of the product
  lookup and, as it is, the key of the cart.
\<close>

definition agregar_al_carrito ::
  "string \<Rightarrow> string \<Rightarrow> mundo \<Rightarrow> mundo \<times> (excepcion + respuesta)" where
  "agregar_al_carrito metodo producto_id w =
     (if metodo \<noteq> ''POST'' then (w, Inr HttpResponseNotAllowed)
      else
        (case get_object_or_404_Producto (db w) producto_id of
           Inl e \<Rightarrow> (w, Inl e)
         | Inr (pk, producto) \<Rightarrow>
             (let carrito = get_carrito (ses w) in
              if stock producto \<le> 0 then
                (w, Inr (JsonResponse [(''error'', JS ''Producto sin stock'')] 400))
              else
                (case map_of carrito producto_id of
                   Some c \<Rightarrow>
                     if stock producto > c then
                       guardar_y_responder producto (AList.update producto_id (c + 1) carrito) w
                     else
                       (w, Inr (JsonResponse [(''error'', JS ''No hay suficiente stock'')] 400))
                 | None \<Rightarrow>
                     guardar_y_responder producto (AList.update producto_id 1 carrito) w))))"

text \<open>
  \<open>actualizar_carrito\<close> (\<open>@require_POST\<close>). \<open>cantidad\<close> is \<open>int(data.get('cantidad'))\<close>.
\<close>

definition actualizar_carrito ::
  "string \<Rightarrow> string \<Rightarrow> int \<Rightarrow> mundo \<Rightarrow> mundo \<times> (excepcion + respuesta)" where
  "actualizar_carrito metodo producto_id cant w =
     (if metodo \<noteq> ''POST'' then (w, Inr HttpResponseNotAllowed)
      else
        let carrito = get_carrito (ses w) in
        if map_of carrito producto_id \<noteq> None then
          (let carrito' = (if cant > 0 then AList.update producto_id cant carrito
                           else AList.delete producto_id carrito)
           in (w\<lparr>ses := (ses w)\<lparr>ses_carrito := Some carrito'\<rparr>\<rparr>,
               Inr (JsonResponse [(''mensaje'', JS ''Carrito actualizado.'')] 200)))
        else (w, Inr (JsonResponse [(''error'', JS ''Producto no encontrado en el carrito'')] 404)))"

section \<open>Checkout\<close>

record line_item =
  li_name :: string
  li_images :: "string list"
  li_unit_amount :: int
  li_quantity :: int

record solicitud =
  sol_line_items :: "line_item list"
  sol_success_url :: string
  sol_cancel_url :: string
  sol_metadata :: "(string \<times> string) list"

record checkout_session =
  cs_url :: string
  cs_id :: string

text \<open>Python's \<open>int()\<close> on a decimal number truncates toward zero.\<close>

definition py_int :: "rat \<Rightarrow> int" where
  "py_int x = (if x \<ge> 0 then \<lfloor>x\<rfloor> else \<lceil>x\<rceil>)"

text \<open>The loop of \<open>crear_sesion_pago\<close> that builds \<open>line_items\<close>; \<open>origen\<close> is the
  scheme and host that \<open>request.build_absolute_uri\<close> puts before a path.\<close>

fun construir_line_items :: "string \<Rightarrow> store \<Rightarrow> carrito \<Rightarrow> excepcion + line_item list" where
  "construir_line_items origen st [] = Inr []"
| "construir_line_items origen st ((producto_id, cant) # resto) =
     (case get_object_or_404_Producto st producto_id of
        Inl e \<Rightarrow> Inl e
      | Inr (pk, producto) \<Rightarrow>
          (case construir_line_items origen st resto of
             Inl e \<Rightarrow> Inl e
           | Inr items \<Rightarrow>
               Inr (\<lparr>li_name = nombre producto,
                     li_images = [origen @ imagen_url producto],
                     li_unit_amount = py_int (precio producto * 100),
                     li_quantity = cant\<rparr> # items)))"

text \<open>The metadata of the gateway session: the user's id and the cart as JSON text.\<close>

definition metadata_de :: "string \<Rightarrow> carrito \<Rightarrow> (string \<times> string) list" where
  "metadata_de user_id carrito = [(''user_id'', user_id), (''carrito'', json_dumps carrito)]"

text \<open>
  \<open>crear_sesion_pago\<close> (\<open>@login_required\<close>). \<open>Session_create\<close> stands for
  \<open>stripe.checkout.Session.create\<close>: it returns the session or the text of the
  exception it raised. \<open>usuario_req\<close> is the id of the authenticated user, if any.
\<close>

definition crear_sesion_pago ::
  "(solicitud \<Rightarrow> string + checkout_session) \<Rightarrow> string \<Rightarrow> string option \<Rightarrow> mundo
     \<Rightarrow> mundo \<times> (excepcion + respuesta)" where
  "crear_sesion_pago Session_create origen usuario_req w =
     (case usuario_req of
        None \<Rightarrow> (w, Inr RedirectToLogin)
      | Some user_id \<Rightarrow>
          let carrito = get_carrito (ses w) in
          if carrito = [] then
            (add_message Error (''Tu carrito est'' @ [CHR 0xE1] @ '' vac'' @ [CHR 0xED] @ ''o.'') w,
             Inr (Redirect ''vista_carrito''))
          else
            (case construir_line_items origen (db w) carrito of
               Inl e \<Rightarrow> (w, Inl e)
             | Inr line_items \<Rightarrow>
                 (case Session_create
                         \<lparr>sol_line_items = line_items,
                          sol_success_url = origen @ ''/pedido/exitoso/'',
                          sol_cancel_url = origen @ ''/carrito/'',
                          sol_metadata = metadata_de user_id carrito\<rparr> of
                    Inr checkout \<Rightarrow> (w, Inr (Redirect (cs_url checkout)))
                  | Inl e \<Rightarrow>
                      (add_message Error (''Error al conectar con la pasarela de pago: '' @ e) w,
                       Inr (Redirect ''vista_carrito'')))))"

section \<open>The webhook\<close>

record evento =
  ev_type :: string
  session_id :: string
  amount_total :: int
  metadata :: "(string \<times> string) list"

text \<open>The names that \<open>views.py\<close> binds at module level: its imports (lines 2 to 14)
  and its functions. A function body looks a free name up there when it runs; a name
  that is neither there nor a builtin raises \<open>NameError\<close>.\<close>

definition views_globals :: "string list" where
  "views_globals =
     [''json'', ''stripe'', ''render'', ''redirect'', ''get_object_or_404'', ''JsonResponse'',
      ''HttpResponse'', ''require_POST'', ''login_required'', ''csrf_exempt'', ''messages'',
      ''settings'', ''send_mail'', ''Producto'', ''Categoria'', ''Pedido'', ''DetallePedido'',
      ''DisenoPersonalizado'', ''catalogo'', ''vista_carrito'', ''agregar_al_carrito'',
      ''actualizar_carrito'', ''crear_sesion_pago'', ''pedido_exitoso'', ''stripe_webhook'',
      ''historial_pedidos'']"

text \<open>\<open>session.amount_total / 100.0\<close> as the value of \<open>total\<close>, a
  \<open>DecimalField(max_digits=10, decimal_places=2)\<close>: the float is converted with ten
  significant digits, which gives the amount in currency units exactly while the
  amount has at most ten digits. From there on the conversion rounds or fails; that
  is not modelled.\<close>

definition total_de :: "int \<Rightarrow> rat option" where
  "total_de amount = (if \<bar>amount\<bar> < 10 ^ 10 then Some (of_int amount / 100) else None)"

text \<open>Step 2 of the handler: one \<open>DetallePedido\<close> per cart entry, then the stock
  update, in the order of \<open>carrito.items()\<close>. An exception leaves the loop with the
  writes made so far.\<close>

fun crear_detalles :: "nat \<Rightarrow> carrito \<Rightarrow> store \<Rightarrow> store \<times> (excepcion + unit)" where
  "crear_detalles ped [] st = (st, Inr ())"
| "crear_detalles ped ((producto_id, cant) # resto) st =
     (case get_object_or_404_Producto st producto_id of
        Inl e \<Rightarrow> (st, Inl e)
      | Inr (pk, producto) \<Rightarrow>
          (case DetallePedido_objects_create st ped pk cant (precio producto) of
             Inl e \<Rightarrow> (st, Inl e)
           | Inr st1 \<Rightarrow>
               (case Producto_save st1 pk (producto\<lparr>stock := stock producto - cant\<rparr>) of
                  Inl e \<Rightarrow> (st1, Inl e)
                | Inr st2 \<Rightarrow> crear_detalles ped resto st2)))"

text \<open>Lines 222 to 263 of \<open>stripe_webhook\<close>, for the user that line 220 would have
  fetched: the lookup of the session id, the order, the lines and the answer.\<close>

definition registrar_pedido ::
  "store \<Rightarrow> evento \<Rightarrow> int \<Rightarrow> carrito \<Rightarrow> store \<times> (excepcion + respuesta)" where
  "registrar_pedido st event user carrito =
     (if Pedido_exists st (session_id event) then (st, Inr (HttpResponse 200))
      else
        (case total_de (amount_total event) of
           None \<Rightarrow> (st, Inl Total_no_modelado)
         | Some t \<Rightarrow>
             (let (pedido, st1) =
                    Pedido_objects_create st user t En_preparacion (session_id event)
              in (case crear_detalles (pedido_id pedido) carrito st1 of
                    (st2, Inl e) \<Rightarrow> (st2, Inl e)
                  | (st2, Inr _) \<Rightarrow> (st2, Inr (HttpResponse 200))))))"

text \<open>
  \<open>stripe_webhook\<close>. \<open>construct_event\<close> stands for \<open>stripe.Webhook.construct_event\<close>:
  it returns the event or the exception it raised; the view answers 400 to
  \<open>ValueError\<close> and \<open>SignatureVerificationError\<close> and lets any other through. Line 220
  uses the name \<open>User\<close>, which is looked up in \<open>views_globals\<close>.
\<close>

definition stripe_webhook ::
  "(string \<Rightarrow> string option \<Rightarrow> string \<Rightarrow> excepcion + evento) \<Rightarrow> string \<Rightarrow>
   string \<Rightarrow> string option \<Rightarrow> store \<Rightarrow> store \<times> (excepcion + respuesta)" where
  "stripe_webhook construct_event endpoint_secret payload sig_header st =
     (case construct_event payload sig_header endpoint_secret of
        Inl e \<Rightarrow>
          if e = ValueError \<or> e = SignatureVerificationError then (st, Inr (HttpResponse 400))
          else (st, Inl e)
      | Inr event \<Rightarrow>
          if ev_type event = ''checkout.session.completed'' then
            (case map_of (metadata event) ''user_id'' of
               None \<Rightarrow> (st, Inl (KeyError ''user_id''))
             | Some user_id \<Rightarrow>
            (case map_of (metadata event) ''carrito'' of
               None \<Rightarrow> (st, Inl (KeyError ''carrito''))
             | Some texto \<Rightarrow>
            (case json_loads texto of
               None \<Rightarrow> (st, Inl JSONDecodeError_or_NameError)
             | Some carrito \<Rightarrow>
                 if ''User'' \<notin> set views_globals then (st, Inl (NameError ''User''))
                 else
                   (case get_object_or_404_User st user_id of
                      Inl e \<Rightarrow> (st, Inl e)
                    | Inr user \<Rightarrow> registrar_pedido st event user carrito))))
          else (st, Inr (HttpResponse 200)))"

text \<open>The tokens of the text that \<open>json_dumps\<close> writes for a cart.\<close>

definition toks_item :: "int \<Rightarrow> token list" where
  "toks_item n = [LBrace, TStr ''cantidad'', Colon, TInt n, RBrace]"

fun toks_members :: "carrito \<Rightarrow> token list" where
  "toks_members [] = []"
| "toks_members [(k, n)] = TStr k # Colon # toks_item n"
| "toks_members ((k, n) # m # ms) = TStr k # Colon # toks_item n @ Comma # toks_members (m # ms)"

section \<open>A small shop for the examples\<close>

definition leche :: producto where
  "leche = \<lparr>nombre = ''Leche'', precio = 10, stock = 5, imagen_url = ''/media/productos/leche.png''\<rparr>"

definition pan :: producto where
  "pan = \<lparr>nombre = ''Pan'', precio = 20, stock = 3, imagen_url = ''/media/productos/pan.png''\<rparr>"

definition tienda :: store where
  "tienda = \<lparr>usuarios = [7], productos = [(1, leche), (2, pan)],
             pedidos = [], detalles = [], seq_pedido = 1\<rparr>"

definition mundo_de :: "store \<Rightarrow> carrito option \<Rightarrow> mundo" where
  "mundo_de st c = \<lparr>db = st, ses = \<lparr>ses_carrito = c, mensajes = []\<rparr>\<rparr>"

definition gateway_caida :: "solicitud \<Rightarrow> string + checkout_session" where
  "gateway_caida sol = Inl ''timeout''"

text \<open>The shop with one order already paid under the session id \<open>cs_1\<close>.\<close>

definition tienda_con_pedido :: store where
  "tienda_con_pedido = tienda\<lparr>pedidos :=
      [\<lparr>pedido_id = 1, usuario = 7, estado = En_preparacion, total = 40,
        direccion_envio = [], id_transaccion_pago = ''cs_1''\<rparr>], seq_pedido := 2\<rparr>"

text \<open>A \<open>construct_event\<close> that accepts the signature equal to the secret and then
  yields the given event, and a completed-payment event with the metadata that
  \<open>crear_sesion_pago\<close> attaches.\<close>

definition construct_event_de :: "evento \<Rightarrow> string \<Rightarrow> string option \<Rightarrow> string \<Rightarrow> excepcion + evento" where
  "construct_event_de ev payload sig_header secret =
     (if sig_header = Some secret then Inr ev else Inl SignatureVerificationError)"

definition evento_de :: "string \<Rightarrow> int \<Rightarrow> string \<Rightarrow> carrito \<Rightarrow> evento" where
  "evento_de sid amount uid c =
     \<lparr>ev_type = ''checkout.session.completed'', session_id = sid, amount_total = amount,
      metadata = metadata_de uid c\<rparr>"

section \<open>Properties of the cart views\<close>

lemma update_absent: "map_of al k = None \<Longrightarrow> AList.update k v al = al @ [(k, v)]"
  by (induction al) (auto split: if_splits)

lemma delete_absent: "map_of al k = None \<Longrightarrow> AList.delete k al = al"
  by (induction al) (auto split: if_splits)

lemma int_str_1: "int_str ''1'' = Some 1"
  by code_simp

lemma int_str_01: "int_str ''01'' = Some 1"
  by code_simp

lemma int_str_2: "int_str ''2'' = Some 2"
  by code_simp

text \<open>What \<open>agregar_al_carrito\<close> does for a value that names an existing product,
  told by the key the cart holds: the view tests its stock against the entry stored
  under this very text.\<close>

lemma agregar_al_carrito_por_clave:
  assumes "get_object_or_404_Producto (db w) pid = Inr (pk, p)"
  shows "(stock p \<le> 0 \<longrightarrow>
            agregar_al_carrito ''POST'' pid w =
              (w, Inr (JsonResponse [(''error'', JS ''Producto sin stock'')] 400))) \<and>
         (0 < stock p \<longrightarrow>
            (case map_of (get_carrito (ses w)) pid of
               Some c \<Rightarrow>
                 if stock p < c + 1 then
                   agregar_al_carrito ''POST'' pid w =
                     (w, Inr (JsonResponse [(''error'', JS ''No hay suficiente stock'')] 400))
                 else
                   (\<exists>w' body. agregar_al_carrito ''POST'' pid w = (w', Inr (JsonResponse body 200)) \<and>
                      db w' = db w \<and>
                      get_carrito (ses w') = AList.update pid (c + 1) (get_carrito (ses w)))
             | None \<Rightarrow>
                 (\<exists>w' body. agregar_al_carrito ''POST'' pid w = (w', Inr (JsonResponse body 200)) \<and>
                    db w' = db w \<and>
                    get_carrito (ses w') = get_carrito (ses w) @ [(pid, 1)])))"
  using assms
  by (auto simp: agregar_al_carrito_def guardar_y_responder_def Let_def add_message_def
                 get_carrito_def update_absent
           split: option.splits)

text \<open>
  C6. Product 1 has stock 5 and is in the cart with quantity 5, under the key \<open>1\<close>.
  A request for \<open>1\<close> is refused with 400 ``No hay suficiente stock''; a request for
  \<open>01\<close>, which \<open>int\<close> makes the same product, is answered 200 and the cart gets a
  second entry for it, so it holds six units against a stock of five.
\<close>

theorem agregar_al_carrito_otra_clave:
  "get_object_or_404_Producto tienda ''01'' = Inr (1, leche) \<and> stock leche = 5 \<and>
   agregar_al_carrito ''POST'' ''1'' (mundo_de tienda (Some [(''1'', 5)])) =
     (mundo_de tienda (Some [(''1'', 5)]),
      Inr (JsonResponse [(''error'', JS ''No hay suficiente stock'')] 400)) \<and>
   agregar_al_carrito ''POST'' ''01'' (mundo_de tienda (Some [(''1'', 5)])) =
     (\<lparr>db = tienda,
       ses = \<lparr>ses_carrito = Some [(''1'', 5), (''01'', 1)],
              mensajes = [(Success, [dquote] @ ''Leche'' @ [dquote] @ '' fue a'' @ [CHR 0xF1] @
                                    ''adido a tu carrito.'')]\<rparr>\<rparr>,
      Inr (JsonResponse
        [(''mensaje'', JS (''Leche a'' @ [CHR 0xF1] @ ''adido al carrito.'')),
         (''total_items'', JI 6)] 200))"
  by (simp add: agregar_al_carrito_def guardar_y_responder_def get_object_or_404_Producto_def
        int_str_1 int_str_01 add_message_def get_carrito_def mundo_de_def tienda_def leche_def)

text \<open>
  C7. \<open>actualizar_carrito\<close> with a quantity of 0 or less leaves the cart without an
  entry for the product (the other entries as they were). With a positive quantity it
  answers 404 and changes nothing when the product is not in the cart, and else sets
  the entry to that quantity. The store plays no part: with any other store the
  answer and the session are the same, so no stock is consulted.
\<close>

theorem actualizar_carrito_correct:
  "(cant \<le> 0 \<longrightarrow>
      (\<exists>w' r. actualizar_carrito ''POST'' pid cant w = (w', r) \<and> db w' = db w \<and>
         get_carrito (ses w') = AList.delete pid (get_carrito (ses w)) \<and>
         map_of (get_carrito (ses w')) pid = None)) \<and>
   (0 < cant \<longrightarrow> map_of (get_carrito (ses w)) pid = None \<longrightarrow>
      actualizar_carrito ''POST'' pid cant w =
        (w, Inr (JsonResponse [(''error'', JS ''Producto no encontrado en el carrito'')] 404))) \<and>
   (0 < cant \<longrightarrow> map_of (get_carrito (ses w)) pid \<noteq> None \<longrightarrow>
      (\<exists>w'. actualizar_carrito ''POST'' pid cant w =
          (w', Inr (JsonResponse [(''mensaje'', JS ''Carrito actualizado.'')] 200)) \<and>
         db w' = db w \<and>
         get_carrito (ses w') = AList.update pid cant (get_carrito (ses w)) \<and>
         map_of (get_carrito (ses w')) pid = Some cant)) \<and>
   (\<forall>st. actualizar_carrito ''POST'' pid cant (w\<lparr>db := st\<rparr>) =
      ((fst (actualizar_carrito ''POST'' pid cant w))\<lparr>db := st\<rparr>,
       snd (actualizar_carrito ''POST'' pid cant w)))"
  by (auto simp: actualizar_carrito_def Let_def get_carrito_def delete_absent AList.delete_conv'
                 AList.update_conv'
           split: option.splits)



theorem actualizar_carrito_correct_witness:
  "(\<exists>w' r. actualizar_carrito ''POST'' ''1'' 0 (mundo_de tienda (Some [(''1'', 2), (''2'', 1)])) = (w', r) \<and>
       db w' = tienda \<and> get_carrito (ses w') = [(''2'', 1)]) \<and>
   actualizar_carrito ''POST'' ''2'' 4 (mundo_de tienda (Some [(''1'', 2)])) =
     (mundo_de tienda (Some [(''1'', 2)]),
      Inr (JsonResponse [(''error'', JS ''Producto no encontrado en el carrito'')] 404)) \<and>
   (\<exists>w'. actualizar_carrito ''POST'' ''2'' 100 (mundo_de tienda (Some [(''1'', 2), (''2'', 1)])) =
       (w', Inr (JsonResponse [(''mensaje'', JS ''Carrito actualizado.'')] 200)) \<and>
       db w' = tienda \<and> get_carrito (ses w') = [(''1'', 2), (''2'', 100)])"
proof (intro conjI)
  have g: "get_carrito (ses (mundo_de st (Some c))) = c" "db (mundo_de st (Some c)) = st" for st c
    by (simp_all add: mundo_de_def get_carrito_def)
  from actualizar_carrito_correct [of 0 "''1''" "mundo_de tienda (Some [(''1'', 2), (''2'', 1)])"]
  show "\<exists>w' r. actualizar_carrito ''POST'' ''1'' 0 (mundo_de tienda (Some [(''1'', 2), (''2'', 1)])) = (w', r) \<and>
       db w' = tienda \<and> get_carrito (ses w') = [(''2'', 1)]"
    unfolding g by (elim conjE) auto
  from actualizar_carrito_correct [of 4 "''2''" "mundo_de tienda (Some [(''1'', 2)])"]
  show "actualizar_carrito ''POST'' ''2'' 4 (mundo_de tienda (Some [(''1'', 2)])) =
     (mundo_de tienda (Some [(''1'', 2)]),
      Inr (JsonResponse [(''error'', JS ''Producto no encontrado en el carrito'')] 404))"
    unfolding g by (elim conjE) auto
  from actualizar_carrito_correct [of 100 "''2''" "mundo_de tienda (Some [(''1'', 2), (''2'', 1)])"]
  show "\<exists>w'. actualizar_carrito ''POST'' ''2'' 100 (mundo_de tienda (Some [(''1'', 2), (''2'', 1)])) =
       (w', Inr (JsonResponse [(''mensaje'', JS ''Carrito actualizado.'')] 200)) \<and>
       db w' = tienda \<and> get_carrito (ses w') = [(''1'', 2), (''2'', 100)]"
    unfolding g by (elim conjE) auto
qed

section \<open>Properties of checkout\<close>

lemma crear_sesion_pago_db:
  "db (fst (crear_sesion_pago Session_create origen usuario_req w)) = db w"
  by (auto simp: crear_sesion_pago_def Let_def add_message_def split: option.splits sum.splits)

text \<open>
  C8. For a logged-in user with an empty cart, \<open>crear_sesion_pago\<close> appends the
  error message for the empty cart to the messages of the session and redirects to the
  cart page. For every request the store afterwards is the store before (no order, no
  stock change) and so is the session cart. When the gateway call raises, the view
  appends an error message with the exception's text and redirects to the cart page;
  store and session cart are as before.
\<close>

theorem crear_sesion_pago_frame:
  "(get_carrito (ses w) = [] \<longrightarrow>
      crear_sesion_pago Session_create origen (Some u) w =
        (w\<lparr>ses := (ses w)\<lparr>mensajes := mensajes (ses w) @
            [(Error, ''Tu carrito est'' @ [CHR 0xE1] @ '' vac'' @ [CHR 0xED] @ ''o.'')]\<rparr>\<rparr>,
         Inr (Redirect ''vista_carrito''))) \<and>
   db (fst (crear_sesion_pago Session_create origen usuario_req w)) = db w \<and>
   ses_carrito (ses (fst (crear_sesion_pago Session_create origen usuario_req w))) = ses_carrito (ses w) \<and>
   (\<forall>items e. get_carrito (ses w) \<noteq> [] \<longrightarrow>
      construir_line_items origen (db w) (get_carrito (ses w)) = Inr items \<longrightarrow>
      Session_create \<lparr>sol_line_items = items, sol_success_url = origen @ ''/pedido/exitoso/'',
                       sol_cancel_url = origen @ ''/carrito/'',
                       sol_metadata = metadata_de u (get_carrito (ses w))\<rparr> = Inl e \<longrightarrow>
      crear_sesion_pago Session_create origen (Some u) w =
        (w\<lparr>ses := (ses w)\<lparr>mensajes := mensajes (ses w) @
            [(Error, ''Error al conectar con la pasarela de pago: '' @ e)]\<rparr>\<rparr>,
         Inr (Redirect ''vista_carrito'')))"
  by (auto simp: crear_sesion_pago_def Let_def add_message_def split: option.splits sum.splits)

theorem crear_sesion_pago_frame_witness:
  "crear_sesion_pago gateway_caida ''https://tienda'' (Some ''7'') (mundo_de tienda None) =
     (\<lparr>db = tienda,
       ses = \<lparr>ses_carrito = None,
              mensajes = [(Error, ''Tu carrito est'' @ [CHR 0xE1] @ '' vac'' @ [CHR 0xED] @ ''o.'')]\<rparr>\<rparr>,
      Inr (Redirect ''vista_carrito'')) \<and>
   crear_sesion_pago gateway_caida ''https://tienda'' (Some ''7'') (mundo_de tienda (Some [(''1'', 2)])) =
     (\<lparr>db = tienda,
       ses = \<lparr>ses_carrito = Some [(''1'', 2)],
              mensajes = [(Error, ''Error al conectar con la pasarela de pago: timeout'')]\<rparr>\<rparr>,
      Inr (Redirect ''vista_carrito''))"
proof (intro conjI)
  have e: "get_carrito (ses (mundo_de tienda None)) = []"
    by (simp add: mundo_de_def get_carrito_def)
  from crear_sesion_pago_frame [of "mundo_de tienda None" gateway_caida "''https://tienda''" "''7''"] e
  have "crear_sesion_pago gateway_caida ''https://tienda'' (Some ''7'') (mundo_de tienda None) =
     ((mundo_de tienda None)\<lparr>ses := (ses (mundo_de tienda None))\<lparr>mensajes :=
          mensajes (ses (mundo_de tienda None)) @
          [(Error, ''Tu carrito est'' @ [CHR 0xE1] @ '' vac'' @ [CHR 0xED] @ ''o.'')]\<rparr>\<rparr>,
      Inr (Redirect ''vista_carrito''))"
    by blast
  then show "crear_sesion_pago gateway_caida ''https://tienda'' (Some ''7'') (mundo_de tienda None) =
     (\<lparr>db = tienda,
       ses = \<lparr>ses_carrito = None,
              mensajes = [(Error, ''Tu carrito est'' @ [CHR 0xE1] @ '' vac'' @ [CHR 0xED] @ ''o.'')]\<rparr>\<rparr>,
      Inr (Redirect ''vista_carrito''))"
    by (simp add: mundo_de_def)
  have n: "get_carrito (ses (mundo_de tienda (Some [(''1'', 2)]))) = [(''1'', 2)]"
    "db (mundo_de tienda (Some [(''1'', 2)])) = tienda"
    by (simp_all add: mundo_de_def get_carrito_def)
  have i: "construir_line_items ''https://tienda'' tienda [(''1'', 2)] =
      Inr [\<lparr>li_name = ''Leche'', li_images = [''https://tienda/media/productos/leche.png''],
            li_unit_amount = 1000, li_quantity = 2\<rparr>]"
    by (simp add: tienda_def leche_def get_object_or_404_Producto_def int_str_1 py_int_def)
  have g: "gateway_caida sol = Inl ''timeout''" for sol
    by (simp add: gateway_caida_def)
  from crear_sesion_pago_frame [of "mundo_de tienda (Some [(''1'', 2)])" gateway_caida
      "''https://tienda''" "''7''"]
  have "crear_sesion_pago gateway_caida ''https://tienda'' (Some ''7'') (mundo_de tienda (Some [(''1'', 2)])) =
     ((mundo_de tienda (Some [(''1'', 2)]))\<lparr>ses := (ses (mundo_de tienda (Some [(''1'', 2)])))\<lparr>mensajes :=
          mensajes (ses (mundo_de tienda (Some [(''1'', 2)]))) @
          [(Error, ''Error al conectar con la pasarela de pago: '' @ ''timeout'')]\<rparr>\<rparr>,
      Inr (Redirect ''vista_carrito''))"
    unfolding n using i g by blast
  then show "crear_sesion_pago gateway_caida ''https://tienda'' (Some ''7'') (mundo_de tienda (Some [(''1'', 2)])) =
     (\<lparr>db = tienda,
       ses = \<lparr>ses_carrito = Some [(''1'', 2)],
              mensajes = [(Error, ''Error al conectar con la pasarela de pago: timeout'')]\<rparr>\<rparr>,
      Inr (Redirect ''vista_carrito''))"
    by (simp add: mundo_de_def)
qed

section \<open>Properties of the webhook\<close>

lemma User_no_ligado: "''User'' \<notin> set views_globals"
  by (simp add: views_globals_def)

text \<open>The handler writes nothing: every path to an answer or an exception ends before
  line 227, the first write.\<close>

lemma stripe_webhook_store:
  "fst (stripe_webhook construct_event secret payload sig_header st) = st"
  by (simp add: stripe_webhook_def User_no_ligado split: sum.splits option.splits)

text \<open>A completed-payment event whose metadata is read and decoded reaches line 220.\<close>

lemma stripe_webhook_NameError:
  assumes "construct_event payload sig_header secret = Inr ev"
    and "ev_type ev = ''checkout.session.completed''"
    and "map_of (metadata ev) ''user_id'' = Some uid"
    and "map_of (metadata ev) ''carrito'' = Some texto"
    and "json_loads texto = Some c"
  shows "stripe_webhook construct_event secret payload sig_header st = (st, Inl (NameError ''User''))"
  using assms by (simp add: stripe_webhook_def User_no_ligado)

lemma distinct_dict_aux:
  "distinct (map fst d) \<Longrightarrow> distinct (map fst (foldl (\<lambda>d (k, v). AList.update k v d) d ps))"
  by (induction ps arbitrary: d) (auto simp: AList.distinct_update)

lemma distinct_dict: "distinct (map fst (dict ps))"
  by (simp add: dict_def distinct_dict_aux)

lemma json_loads_distinct: "json_loads t = Some c \<Longrightarrow> distinct (map fst c)"
  by (auto simp: json_loads_def distinct_dict split: option.splits)

lemma ej_loads_ab: "json_loads (json_dumps [(''1'', 2), (''2'', 1)]) = Some [(''1'', 2), (''2'', 1)]"
  by code_simp


lemma construct_event_de_ok: "construct_event_de ev payload (Some secret) secret = Inr ev"
  by (simp add: construct_event_de_def)

lemma evento_de_simps:
  "ev_type (evento_de sid a uid c) = ''checkout.session.completed''"
  "session_id (evento_de sid a uid c) = sid"
  "amount_total (evento_de sid a uid c) = a"
  "map_of (metadata (evento_de sid a uid c)) ''user_id'' = Some uid"
  "map_of (metadata (evento_de sid a uid c)) ''carrito'' = Some (json_dumps c)"
  by (simp_all add: evento_de_def metadata_de_def)

text \<open>
  C1. The order of session \<open>cs_1\<close>, of user 7, is in the store and user 7 exists. The
  notification \<open>cs_1\<close> of user 7 is delivered again: the handler raises \<open>NameError\<close> at
  line 220 and leaves the store as it is. It does not answer 200.
\<close>

theorem stripe_webhook_second_delivery_NameError:
  "Pedido_exists tienda_con_pedido ''cs_1'' \<and> 7 \<in> set (usuarios tienda_con_pedido) \<and>
   stripe_webhook (construct_event_de (evento_de ''cs_1'' 4000 ''7'' [(''1'', 2), (''2'', 1)]))
     ''whsec'' ''body'' (Some ''whsec'') tienda_con_pedido =
     (tienda_con_pedido, Inl (NameError ''User''))"
  by (simp add: stripe_webhook_def User_no_ligado construct_event_de_ok evento_de_simps
        ej_loads_ab Pedido_exists_def tienda_con_pedido_def tienda_def)



text \<open>
  C3, as the spec states it, fails: \<open>Pedido.objects.create\<close> with a transaction id that
  an order already carries succeeds, and two orders carry that id.
\<close>

theorem Pedido_create_duplicate_counterexample:
  "map id_transaccion_pago (pedidos tienda_con_pedido) = [''cs_1''] \<and>
   map id_transaccion_pago
     (pedidos (snd (Pedido_objects_create tienda_con_pedido 7 40 En_preparacion ''cs_1''))) =
     [''cs_1'', ''cs_1'']"
  by (simp add: Pedido_objects_create_def tienda_con_pedido_def Let_def)

text \<open>
  C3, amended. The handler keeps the transaction ids of the orders pairwise different
  when they were so before. It looks the session id up (line 223) before it creates the
  order (line 227); \<open>registrar_pedido_ids\<close> below is this property for lines 222 to 263
  alone, and the handler as a whole, which raises at line 220, inserts no order.
\<close>

theorem stripe_webhook_keeps_ids_distinct:
  assumes "distinct (map id_transaccion_pago (pedidos st))"
  shows "distinct (map id_transaccion_pago
           (pedidos (fst (stripe_webhook construct_event secret payload sig_header st))))"
  using assms by (simp add: stripe_webhook_store)

theorem stripe_webhook_keeps_ids_distinct_witness:
  "distinct (map id_transaccion_pago (pedidos tienda_con_pedido)) \<and>
   distinct (map id_transaccion_pago
     (pedidos (fst (stripe_webhook (construct_event_de (evento_de ''cs_2'' 4000 ''7'' [(''1'', 2), (''2'', 1)]))
        ''whsec'' ''body'' (Some ''whsec'') tienda_con_pedido))))"
proof -
  have d: "distinct (map id_transaccion_pago (pedidos tienda_con_pedido))"
    by (simp add: tienda_con_pedido_def)
  from stripe_webhook_keeps_ids_distinct [OF d] d show ?thesis by blast
qed

text \<open>
  C4. The scenario of the spec: cart {1: 2, 2: 1}, product 1 at 10.00 with stock 5,
  product 2 at 20.00 with stock 3, amount 4000, user 7. The handler raises \<open>NameError\<close>
  at line 220; the store is as before, with no order, no line and the stocks 5 and 3.
\<close>

theorem stripe_webhook_scenario_NameError:
  "stripe_webhook (construct_event_de (evento_de ''cs_1'' 4000 ''7'' [(''1'', 2), (''2'', 1)]))
     ''whsec'' ''body'' (Some ''whsec'') tienda = (tienda, Inl (NameError ''User'')) \<and>
   pedidos tienda = [] \<and> detalles tienda = [] \<and>
   map (\<lambda>(pk, p). (pk, stock p)) (productos tienda) = [(1, 5), (2, 3)] \<and>
   7 \<in> set (usuarios tienda)"
  by (simp add: stripe_webhook_def User_no_ligado construct_event_de_ok evento_de_simps
        ej_loads_ab tienda_def leche_def pan_def)

text \<open>
  C5. Cart mutation, checkout initiation and the webhook leave the store as it is, so
  if no product has a negative stock before one of them, none has after it.
\<close>

theorem stock_no_negativo:
  assumes "\<forall>(pk, p) \<in> set (productos (db w)). 0 \<le> stock p"
  shows "(\<forall>(pk, p) \<in> set (productos (db (fst (agregar_al_carrito metodo pid w)))). 0 \<le> stock p) \<and>
         (\<forall>(pk, p) \<in> set (productos (db (fst (actualizar_carrito metodo pid cant w)))). 0 \<le> stock p) \<and>
         (\<forall>(pk, p) \<in> set (productos (db (fst (crear_sesion_pago Session_create origen usuario_req w)))).
             0 \<le> stock p) \<and>
         (\<forall>(pk, p) \<in> set (productos (fst (stripe_webhook construct_event secret payload sig_header (db w)))).
             0 \<le> stock p)"
proof -
  have a: "db (fst (agregar_al_carrito metodo pid w)) = db w"
    by (auto simp: agregar_al_carrito_def guardar_y_responder_def Let_def add_message_def
             split: sum.splits option.splits prod.splits)
  have b: "db (fst (actualizar_carrito metodo pid cant w)) = db w"
    by (auto simp: actualizar_carrito_def Let_def)
  show ?thesis
    using assms by (simp add: a b crear_sesion_pago_db stripe_webhook_store)
qed

theorem stock_no_negativo_witness:
  "map (\<lambda>(pk, p). stock p) (productos tienda) = [5, 3] \<and>
   list_all (\<lambda>(pk, p). 0 \<le> stock p)
     (productos (db (fst (agregar_al_carrito ''POST'' ''01'' (mundo_de tienda (Some [(''1'', 5)])))))) \<and>
   list_all (\<lambda>(pk, p). 0 \<le> stock p)
     (productos (fst (stripe_webhook (construct_event_de (evento_de ''cs_1'' 8000 ''7'' [(''2'', 4)]))
        ''whsec'' ''body'' (Some ''whsec'') tienda)))"
proof -
  have h: "\<forall>(pk, p) \<in> set (productos (db (mundo_de tienda (Some [(''1'', 5)])))). 0 \<le> stock p"
    by (simp add: mundo_de_def tienda_def leche_def pan_def)
  have d: "db (mundo_de tienda (Some [(''1'', 5)])) = tienda" by (simp add: mundo_de_def)
  have s: "map (\<lambda>(pk, p). stock p) (productos tienda) = [5, 3]"
    by (simp add: tienda_def leche_def pan_def)
  from stock_no_negativo [OF h] s show ?thesis unfolding d list_all_iff by blast
qed

text \<open>
  C10. An order of session \<open>cs_1\<close> exists. For the notification that names user 8, who
  does not exist, and for the one that names user 7, who does, the handler raises
  \<open>NameError\<close> at line 220 alike: no user is looked up and no not-found error is given.
\<close>

theorem stripe_webhook_missing_user_NameError:
  "Pedido_exists tienda_con_pedido ''cs_1'' \<and> 8 \<notin> set (usuarios tienda_con_pedido) \<and>
   stripe_webhook (construct_event_de (evento_de ''cs_1'' 4000 ''8'' [(''1'', 2), (''2'', 1)]))
     ''whsec'' ''body'' (Some ''whsec'') tienda_con_pedido =
     (tienda_con_pedido, Inl (NameError ''User'')) \<and>
   stripe_webhook (construct_event_de (evento_de ''cs_3'' 4000 ''7'' [(''1'', 2), (''2'', 1)]))
     ''whsec'' ''body'' (Some ''whsec'') tienda_con_pedido =
     (tienda_con_pedido, Inl (NameError ''User''))"
  by (simp add: stripe_webhook_def User_no_ligado construct_event_de_ok evento_de_simps
        ej_loads_ab Pedido_exists_def tienda_con_pedido_def tienda_def)

subsection \<open>Lines 222 to 263\<close>

text \<open>The statements after line 220, were they reached with a user: they keep the
  transaction ids of the orders distinct, through the lookup before the insert, and
  the stocks non-negative, through the check of the column at \<open>save\<close>.\<close>

lemma crear_detalles_pedidos:
  "pedidos (fst (crear_detalles ped c st)) = pedidos st"
  by (induction ped c st rule: crear_detalles.induct)
     (auto simp: DetallePedido_objects_create_def Producto_save_def
           split: sum.splits prod.splits if_splits)

lemma registrar_pedido_ids:
  assumes "distinct (map id_transaccion_pago (pedidos st))"
  shows "distinct (map id_transaccion_pago (pedidos (fst (registrar_pedido st event user carrito))))"
proof (cases "Pedido_exists st (session_id event) \<or> total_de (amount_total event) = None")
  case True
  with assms show ?thesis
    by (auto simp: registrar_pedido_def)
next
  case False
  then obtain t where t: "total_de (amount_total event) = Some t"
    and n: "\<not> Pedido_exists st (session_id event)" by auto
  obtain p st1 where c: "Pedido_objects_create st user t En_preparacion (session_id event) = (p, st1)"
    by (cases "Pedido_objects_create st user t En_preparacion (session_id event)")
  then have p1: "pedidos st1 = pedidos st @ [p]" "id_transaccion_pago p = session_id event"
    by (auto simp: Pedido_objects_create_def Let_def)
  obtain st2 r where cd: "crear_detalles (pedido_id p) carrito st1 = (st2, r)"
    by (cases "crear_detalles (pedido_id p) carrito st1")
  then have p2: "pedidos st2 = pedidos st1"
    using crear_detalles_pedidos [of "pedido_id p" carrito st1] by simp
  have "fst (registrar_pedido st event user carrito) = st2"
    by (cases r) (simp_all add: registrar_pedido_def n t c cd)
  with assms n p1 p2 show ?thesis
    by (simp add: Pedido_exists_def)
qed

lemma update_stock_no_negativo:
  "\<forall>(pk, p) \<in> set al. 0 \<le> stock p \<Longrightarrow> 0 \<le> stock q \<Longrightarrow>
   \<forall>(pk, p) \<in> set (AList.update k q al). 0 \<le> stock p"
  by (induction al) (auto split: if_splits)

lemma crear_detalles_stock:
  "\<forall>(pk, p) \<in> set (productos st). 0 \<le> stock p \<Longrightarrow>
   \<forall>(pk, p) \<in> set (productos (fst (crear_detalles ped c st))). 0 \<le> stock p"
proof (induction ped c st rule: crear_detalles.induct)
  case (1 ped st)
  then show ?case by simp
next
  case (2 ped producto_id cant resto st)
  show ?case
  proof (cases "get_object_or_404_Producto st producto_id")
    case (Inl e)
    with "2.prems" show ?thesis by simp
  next
    case (Inr r)
    obtain pk producto where r: "r = (pk, producto)" by (cases r)
    show ?thesis
    proof (cases "DetallePedido_objects_create st ped pk cant (precio producto)")
      case (Inl e)
      with "2.prems" Inr r show ?thesis by simp
    next
      case st1: (Inr st1)
      then have p1: "productos st1 = productos st"
        by (auto simp: DetallePedido_objects_create_def split: if_splits)
      show ?thesis
      proof (cases "Producto_save st1 pk (producto\<lparr>stock := stock producto - cant\<rparr>)")
        case (Inl e)
        with "2.prems" Inr r st1 p1 show ?thesis by simp
      next
        case st2: (Inr st2)
        then have "\<forall>(pk, p) \<in> set (productos st2). 0 \<le> stock p"
          using "2.prems" p1
          by (auto simp: Producto_save_def split: if_splits
                   dest!: update_stock_no_negativo [rule_format, rotated -1])
        from "2.IH" [OF Inr r [symmetric] st1 st2 this] Inr r st1 st2 show ?thesis by simp
      qed
    qed
  qed
qed

lemma registrar_pedido_stock:
  assumes "\<forall>(pk, p) \<in> set (productos st). 0 \<le> stock p"
  shows "\<forall>(pk, p) \<in> set (productos (fst (registrar_pedido st event user carrito))). 0 \<le> stock p"
proof (cases "Pedido_exists st (session_id event) \<or> total_de (amount_total event) = None")
  case True
  with assms show ?thesis
    by (auto simp: registrar_pedido_def)
next
  case False
  then obtain t where t: "total_de (amount_total event) = Some t"
    and n: "\<not> Pedido_exists st (session_id event)" by auto
  obtain p st1 where c: "Pedido_objects_create st user t En_preparacion (session_id event) = (p, st1)"
    by (cases "Pedido_objects_create st user t En_preparacion (session_id event)")
  then have "productos st1 = productos st"
    by (auto simp: Pedido_objects_create_def Let_def)
  with assms have s1: "\<forall>(pk, p) \<in> set (productos st1). 0 \<le> stock p" by simp
  obtain st2 r where cd: "crear_detalles (pedido_id p) carrito st1 = (st2, r)"
    by (cases "crear_detalles (pedido_id p) carrito st1")
  have s2: "\<forall>(pk, p) \<in> set (productos st2). 0 \<le> stock p"
    using crear_detalles_stock [OF s1, of "pedido_id p" carrito] by (simp add: cd)
  have "fst (registrar_pedido st event user carrito) = st2"
    by (cases r) (simp_all add: registrar_pedido_def n t c cd)
  with s2 show ?thesis by simp
qed

section \<open>The cart through \<open>json.dumps\<close> and \<open>json.loads\<close>\<close>

subsection \<open>Strings\<close>

lemma hexval_hexdigit: "k < 16 \<Longrightarrow> hexval (hexdigit k) = Some k"
  by (auto simp: hexval_def hexdigit_def Let_def)

lemma hexval_zero: "hexval CHR ''0'' = Some 0"
  by (simp add: hexval_def)

lemma of_char_less: "(of_char (c::char) :: nat) < 256"
  by simp

lemma hex4_escape:
  "hex4 CHR ''0'' CHR ''0'' (hexdigit (of_char c div 16)) (hexdigit (of_char c mod 16)) =
     Some (of_char c)"
proof -
  have "(of_char c :: nat) div 16 < 16" using of_char_less [of c] by arith
  then show ?thesis
    by (simp add: hex4_def hexval_zero hexval_hexdigit)
qed

lemma char_eq_of_nat: "(of_char c :: nat) = n \<Longrightarrow> (of_char d :: nat) = n \<Longrightarrow> c = d"
proof -
  assume "(of_char c :: nat) = n" "(of_char d :: nat) = n"
  then have "(of_char c :: nat) = of_char d" by (simp only:)
  then show "c = d" by (rule of_char_eqI)
qed

lemma scanstring_escape: "scanstring (escape_ascii c @ rest) = push c (scanstring rest)"
proof -
  consider (q) "c = dquote" | (b) "c = bslash"
    | (p) "c \<noteq> dquote" "c \<noteq> bslash" "32 \<le> (of_char c :: nat)" "(of_char c :: nat) \<le> 126"
    | (s) "c \<noteq> dquote" "c \<noteq> bslash" "(of_char c :: nat) \<in> {8, 12, 10, 13, 9}"
    | (u) "c \<noteq> dquote" "c \<noteq> bslash" "\<not> (32 \<le> (of_char c :: nat) \<and> (of_char c :: nat) \<le> 126)"
          "(of_char c :: nat) \<notin> {8, 12, 10, 13, 9}"
    by blast
  then show ?thesis
  proof cases
    case q
    then show ?thesis by (simp add: escape_ascii_def backslash_def)
  next
    case b
    then show ?thesis by (simp add: escape_ascii_def backslash_def)
  next
    case p
    then show ?thesis by (simp add: escape_ascii_def Let_def)
  next
    case s
    then have "c \<in> {CHR 0x08, CHR 0x0C, CHR 0x0A, CHR 0x0D, CHR 0x09}"
      using char_eq_of_nat [of c 8 "CHR 0x08"] char_eq_of_nat [of c 12 "CHR 0x0C"]
        char_eq_of_nat [of c 10 "CHR 0x0A"] char_eq_of_nat [of c 13 "CHR 0x0D"]
        char_eq_of_nat [of c 9 "CHR 0x09"]
      by auto
    then show ?thesis by (auto simp: escape_ascii_def backslash_def)
  next
    case u
    then show ?thesis
      using of_char_less [of c]
      by (simp add: escape_ascii_def Let_def hex4_escape)
  qed
qed

lemma scanstring_encode:
  "scanstring (concat (map escape_ascii s) @ dquote # rest) = Some (s, rest)"
  by (induction s) (simp_all add: scanstring_escape push_def)

subsection \<open>Integers\<close>

lemma is_digit_char_of: "(k::nat) < 10 \<Longrightarrow> is_digit (char_of (48 + k))"
  by (simp add: is_digit_def)

lemma digit_val_char_of: "(k::nat) < 10 \<Longrightarrow> digit_val (char_of (48 + k)) = k"
  by (simp add: digit_val_def)

lemma is_digit_not_special:
  "is_digit c \<Longrightarrow> \<not> is_ws c \<and> c \<noteq> CHR ''{'' \<and> c \<noteq> CHR ''}'' \<and> c \<noteq> CHR '':'' \<and>
     c \<noteq> CHR '','' \<and> c \<noteq> dquote \<and> c \<noteq> CHR ''-''"
  by (auto simp: is_digit_def is_ws_def)

lemma dec_nonempty: "dec n \<noteq> []"
  by (subst dec.simps) simp

lemma dec_digits: "c \<in> set (dec n) \<Longrightarrow> is_digit c"
proof (induction n rule: dec.induct)
  case (1 n)
  from "1.prems" show ?case
    by (subst (asm) dec.simps) (auto simp: is_digit_char_of "1.IH" split: if_splits)
qed

lemma nat_of_digits_snoc: "nat_of_digits (xs @ [d]) = 10 * nat_of_digits xs + digit_val d"
  by (simp add: nat_of_digits_def)

lemma nat_of_digits_dec: "nat_of_digits (dec n) = n"
proof (induction n rule: dec.induct)
  case (1 n)
  show ?case
  proof (cases "n < 10")
    case True
    then show ?thesis
      by (subst dec.simps) (simp add: nat_of_digits_def digit_val_char_of)
  next
    case False
    then show ?thesis
      by (subst dec.simps) (simp add: nat_of_digits_snoc "1.IH" digit_val_char_of)
  qed
qed

lemma dec_zero: "dec 0 = [CHR ''0'']"
  by (subst dec.simps) (simp, rule of_char_eqI [where ?'a = nat], simp)

lemma hd_dec: "0 < n \<Longrightarrow> hd (dec n) \<noteq> CHR ''0''"
proof (induction n rule: dec.induct)
  case (1 n)
  show ?case
  proof (cases "n < 10")
    case True
    have "(of_char (char_of (48 + n) :: char) :: nat) \<noteq> of_char CHR ''0''"
      using True "1.prems" by simp
    then have "char_of (48 + n) \<noteq> CHR ''0''" by (simp only: of_char_eq_iff not_False_eq_True)
    with True show ?thesis by (subst dec.simps) simp
  next
    case False
    then have "0 < n div 10" by simp
    with False "1.IH" have "hd (dec (n div 10)) \<noteq> CHR ''0''" by simp
    with False show ?thesis
      by (subst dec.simps) (simp add: dec_nonempty)
  qed
qed

lemma scan_natural_dec: "scan_natural (dec n @ CHR ''}'' # r) = Some (n, CHR ''}'' # r)"
proof -
  obtain c cs where d: "dec n = c # cs" using dec_nonempty [of n] by (cases "dec n") auto
  have nd: "\<not> is_digit CHR ''}''" by (simp add: is_digit_def)
  show ?thesis
  proof (cases "n = 0")
    case True
    then show ?thesis by (simp add: dec_zero scan_natural_def)
  next
    case False
    then have "c \<noteq> CHR ''0''" using hd_dec [of n] d by simp
    moreover have "is_digit c" using dec_digits [of c n] d by simp
    moreover have "\<forall>x \<in> set cs. is_digit x" using dec_digits [of _ n] d by simp
    then have "takeWhile is_digit (cs @ CHR ''}'' # r) = cs"
      "dropWhile is_digit (cs @ CHR ''}'' # r) = CHR ''}'' # r"
      using nd by simp_all
    moreover have "nat_of_digits (c # cs) = n" using nat_of_digits_dec [of n] d by simp
    ultimately show ?thesis by (simp add: d scan_natural_def)
  qed
qed

lemma not_float_brace: "\<not> starts_fraction (CHR ''}'' # r)" "\<not> starts_exponent (CHR ''}'' # r)"
  by (simp_all add: starts_fraction_def starts_exponent_def split: list.splits)

lemma scan_number_str_int: "scan_number (str_int i @ CHR ''}'' # r) = Some (i, CHR ''}'' # r)"
proof (cases "i < 0")
  case True
  then show ?thesis
    by (simp add: str_int_def scan_number_def scan_natural_dec not_float_brace)
next
  case False
  obtain c cs where d: "dec (nat i) = c # cs"
    using dec_nonempty [of "nat i"] by (cases "dec (nat i)") auto
  have "is_digit c" using dec_digits [of c "nat i"] d by simp
  then have "c \<noteq> CHR ''-''" using is_digit_not_special by blast
  then have "scan_number (dec (nat i) @ CHR ''}'' # r) =
      (case scan_natural (dec (nat i) @ CHR ''}'' # r) of None \<Rightarrow> None
       | Some (n, r') \<Rightarrow> if starts_fraction r' \<or> starts_exponent r' then None else Some (int n, r'))"
    by (simp add: scan_number_def d split: option.splits)
  with False show ?thesis
    by (simp add: str_int_def scan_natural_dec not_float_brace)
qed

lemma tokenize_str_int:
  "tokenize (str_int i @ CHR ''}'' # r) = map_option ((#) (TInt i)) (tokenize (CHR ''}'' # r))"
proof -
  obtain c cs where d: "str_int i = c # cs"
    using dec_nonempty by (cases "str_int i") (auto simp: str_int_def split: if_splits)
  have "c = CHR ''-'' \<or> is_digit c"
    using d dec_digits [of c "nat i"] dec_nonempty [of "nat i"]
    by (cases "dec (nat i)") (auto simp: str_int_def split: if_splits)
  then have ns: "\<not> is_ws c \<and> c \<noteq> CHR ''{'' \<and> c \<noteq> CHR ''}'' \<and> c \<noteq> CHR '':'' \<and>
     c \<noteq> CHR '','' \<and> c \<noteq> dquote"
    using is_digit_not_special [of c] by (auto simp: is_ws_def)
  have "tokenize (c # cs @ CHR ''}'' # r) =
      (case scan_number (c # cs @ CHR ''}'' # r) of None \<Rightarrow> None
       | Some (i, r') \<Rightarrow> map_option ((#) (TInt i)) (tokenize r'))"
    using ns by simp
  then show ?thesis
    using scan_number_str_int [of i r] by (simp add: d)
qed

lemma tokenize_string:
  "tokenize (encode_basestring_ascii k @ rest) = map_option ((#) (TStr k)) (tokenize rest)"
  by (simp add: encode_basestring_ascii_def scanstring_encode is_ws_def)

subsection \<open>The whole cart\<close>

lemma map_option_append: "map_option ((@) xs) (map_option ((@) ys) r) = map_option ((@) (xs @ ys)) r"
  by (cases r) simp_all

lemma tokenize_item:
  "tokenize (dumps_item n @ rest) = map_option ((@) (toks_item n)) (tokenize rest)"
proof -
  have "tokenize (dumps_item n @ rest) =
      map_option ((#) LBrace) (tokenize (encode_basestring_ascii ''cantidad'' @
        CHR '':'' # CHR '' '' # str_int n @ CHR ''}'' # rest))"
    by (simp add: dumps_item_def is_ws_def)
  also have "\<dots> = map_option ((#) LBrace) (map_option ((#) (TStr ''cantidad''))
      (map_option ((#) Colon) (tokenize (str_int n @ CHR ''}'' # rest))))"
    by (simp only: tokenize_string) (simp add: is_ws_def)
  also have "\<dots> = map_option ((@) (toks_item n)) (tokenize rest)"
    by (simp only: tokenize_str_int) (cases "tokenize rest"; simp add: is_ws_def toks_item_def)
  finally show ?thesis .
qed

lemma tokenize_member:
  "tokenize (encode_basestring_ascii k @ '': '' @ dumps_item n @ rest) =
     map_option ((@) (TStr k # Colon # toks_item n)) (tokenize rest)"
proof -
  have "tokenize (encode_basestring_ascii k @ '': '' @ dumps_item n @ rest) =
      map_option ((#) (TStr k)) (map_option ((#) Colon) (tokenize (dumps_item n @ rest)))"
    by (simp only: tokenize_string) (simp add: is_ws_def)
  then show ?thesis
    by (simp only: tokenize_item) (cases "tokenize rest"; simp)
qed

lemma tokenize_members:
  "tokenize (dumps_members d @ rest) = map_option ((@) (toks_members d)) (tokenize rest)"
proof (induction d rule: dumps_members.induct)
  case 1
  show ?case by (simp add: option.map_ident)
next
  case (2 k c)
  show ?case using tokenize_member [of k c rest] by (cases "tokenize rest") simp_all
next
  case (3 k c m ms)
  have "tokenize (dumps_members ((k, c) # m # ms) @ rest) =
      map_option ((@) (TStr k # Colon # toks_item c))
        (tokenize ('', '' @ dumps_members (m # ms) @ rest))"
    using tokenize_member [of k c "'', '' @ dumps_members (m # ms) @ rest"] by simp
  also have "tokenize ('', '' @ dumps_members (m # ms) @ rest) =
      map_option ((#) Comma) (tokenize (dumps_members (m # ms) @ rest))"
    by (simp add: is_ws_def)
  finally show ?case
    by (simp only: "3.IH") (cases "tokenize rest"; simp)
qed

lemma tokenize_json_dumps: "tokenize (json_dumps d) = Some (LBrace # toks_members d @ [RBrace])"
proof -
  have "tokenize (json_dumps d) = map_option ((#) LBrace) (tokenize (dumps_members d @ ''}''))"
    by (simp add: json_dumps_def is_ws_def)
  also have "tokenize (dumps_members d @ ''}'') = map_option ((@) (toks_members d)) (tokenize ''}'')"
    by (rule tokenize_members)
  also have "tokenize ''}'' = Some [RBrace]" by (simp add: is_ws_def)
  finally show ?thesis by simp
qed

lemma parse_member_toks:
  "parse_member (TStr k # Colon # toks_item n @ rest) = Some ((k, n), rest)"
  by (simp add: parse_member_def parse_item_def toks_item_def)

lemma parse_members_toks:
  "d \<noteq> [] \<Longrightarrow> parse_members (toks_members d @ [RBrace]) = Some d"
proof (induction d rule: toks_members.induct)
  case 1
  then show ?case by simp
next
  case (2 k n)
  show ?case
    using parse_member_toks [of k n "[RBrace]"]
    by (subst parse_members.simps) simp
next
  case (3 k n m ms)
  show ?case
    using parse_member_toks [of k n "Comma # toks_members (m # ms) @ [RBrace]"] "3.IH"
    by (subst parse_members.simps) simp
qed

lemma toks_members_head: "d \<noteq> [] \<Longrightarrow> \<exists>k ts. toks_members d = TStr k # ts"
  by (induction d rule: toks_members.induct) auto

lemma parse_carrito_toks: "parse_carrito (LBrace # toks_members d @ [RBrace]) = Some d"
proof (cases "d = []")
  case True
  then show ?thesis by (simp add: parse_carrito_def)
next
  case False
  from toks_members_head [OF False] obtain k ts where "toks_members d = TStr k # ts" by blast
  then show ?thesis
    using parse_members_toks [OF False] by (simp add: parse_carrito_def)
qed

lemma dict_aux:
  "distinct (map fst (acc @ ps)) \<Longrightarrow>
   foldl (\<lambda>d (k, v). AList.update k v d) acc ps = acc @ ps"
proof (induction ps arbitrary: acc)
  case Nil
  show ?case by simp
next
  case (Cons p ps)
  obtain k v where p: "p = (k, v)" by (cases p)
  from Cons.prems p have "map_of acc k = None"
    by (auto simp: map_of_eq_None_iff)
  then have "AList.update k v acc = acc @ [(k, v)]" by (rule update_absent)
  moreover from Cons.prems have "distinct (map fst ((acc @ [p]) @ ps))" by simp
  ultimately show ?case using Cons.IH [of "acc @ [p]"] by (simp add: p)
qed

lemma dict_distinct_id: "distinct (map fst d) \<Longrightarrow> dict d = d"
  using dict_aux [of "[]" d] by (simp add: dict_def)

lemma json_loads_dumps: "distinct (map fst d) \<Longrightarrow> json_loads (json_dumps d) = Some d"
  by (simp add: json_loads_def tokenize_json_dumps parse_carrito_toks dict_distinct_id)

text \<open>The cart views keep the keys of the session cart distinct, as a dict has them.\<close>

lemma agregar_al_carrito_distinct:
  "distinct (map fst (get_carrito (ses w))) \<Longrightarrow>
   distinct (map fst (get_carrito (ses (fst (agregar_al_carrito metodo pid w)))))"
  by (auto simp: agregar_al_carrito_def guardar_y_responder_def Let_def get_carrito_def add_message_def
                 AList.distinct_update
           split: sum.splits option.splits prod.splits if_splits)

lemma actualizar_carrito_distinct:
  "distinct (map fst (get_carrito (ses w))) \<Longrightarrow>
   distinct (map fst (get_carrito (ses (fst (actualizar_carrito metodo pid cant w)))))"
  by (auto simp: actualizar_carrito_def Let_def get_carrito_def
                 AList.distinct_update AList.distinct_delete
           split: option.splits if_splits)

text \<open>
  C9. \<open>crear_sesion_pago\<close> attaches \<open>metadata_de user_id carrito\<close> to the gateway
  session; the webhook reads \<open>user_id\<close> and \<open>carrito\<close> from the metadata and decodes
  the latter with \<open>json_loads\<close>. For a cart (a dict: its keys are distinct) the two
  reads give back the user id and the cart, entry for entry and in the same order.
\<close>

theorem metadata_roundtrip:
  assumes "distinct (map fst carrito)"
  shows "map_of (metadata_de user_id carrito) ''user_id'' = Some user_id \<and>
         Option.bind (map_of (metadata_de user_id carrito) ''carrito'') json_loads = Some carrito"
  using assms by (simp add: metadata_de_def json_loads_dumps)

theorem metadata_roundtrip_witness:
  "map_of (metadata_de ''7'' [(''1'', 2), (''2'', 1)]) ''user_id'' = Some ''7'' \<and>
   Option.bind (map_of (metadata_de ''7'' [(''1'', 2), (''2'', 1)]) ''carrito'') json_loads =
     Some [(''1'', 2), (''2'', 1)]"
proof -
  have d: "distinct (map fst [(''1'', 2::int), (''2'', 1)])" by simp
  from metadata_roundtrip [OF d] show ?thesis .
qed

end
